theory Spec2Isabelle
  imports Main "HOL-Library.AList" "HOL-Library.Sublist"
begin

section \<open>Strings, paths and the file system\<close>

text \<open>
  Python strings are modelled as \<open>string\<close> (lists of 8-bit characters); text outside
  ASCII stands as its UTF-8 bytes. \<open>os.path\<close> is \<open>posixpath\<close>: the separator is
  \<open>/\<close>, the extension separator is \<open>.\<close>.
\<close>

definition sep :: char where
  "sep = CHR ''/''"

definition extsep :: char where
  "extsep = CHR ''.''"

definition newline :: char where
  "newline = CHR 0x0A"

text \<open>\<open>os.path.basename(p)\<close>: \<open>p[p.rfind('/') + 1:]\<close>.\<close>

definition basename :: "string \<Rightarrow> string" where
  "basename p = rev (takeWhile (\<lambda>c. c \<noteq> sep) (rev p))"

text \<open>
  \<open>os.path.dirname(p)\<close>: \<open>head = p[:p.rfind('/') + 1]\<close>, and trailing separators are
  stripped from \<open>head\<close> unless it consists of separators only.
\<close>

definition dirname :: "string \<Rightarrow> string" where
  "dirname p =
     (let head = rev (dropWhile (\<lambda>c. c \<noteq> sep) (rev p))
      in if head \<noteq> [] \<and> (\<exists>c\<in>set head. c \<noteq> sep)
         then rev (dropWhile (\<lambda>c. c = sep) (rev head))
         else head)"

text \<open>
  \<open>os.path.splitext(p)\<close>: the split is at the last dot of the last path component,
  provided some character of that component before the dot is not a dot itself;
  otherwise the extension is empty.
\<close>

definition splitext :: "string \<Rightarrow> string \<times> string" where
  "splitext p =
     (let b = basename p;
          e = rev (takeWhile (\<lambda>c. c \<noteq> extsep) (rev b));
          stem = take (length b - Suc (length e)) b
      in if extsep \<in> set b \<and> (\<exists>c\<in>set stem. c \<noteq> extsep)
         then (take (length p - Suc (length e)) p, drop (length p - Suc (length e)) p)
         else (p, []))"

text \<open>\<open>os.path.splitext(os.path.basename(path))[0]\<close>, the "base name" of the source.\<close>

definition base_of :: "string \<Rightarrow> string" where
  "base_of path = fst (splitext (basename path))"

text \<open>\<open>os.path.join(a, b)\<close> for two components.\<close>

definition path_join :: "string \<Rightarrow> string \<Rightarrow> string" where
  "path_join a b =
     (if b \<noteq> [] \<and> hd b = sep then b
      else if a = [] \<or> last a = sep then a @ b
      else a @ [sep] @ b)"

text \<open>\<open>str.split('/')\<close>.\<close>

fun split_sep :: "string \<Rightarrow> string \<Rightarrow> string list" where
  "split_sep [] cur = [rev cur]"
| "split_sep (c # cs) cur =
     (if c = sep then rev cur # split_sep cs [] else split_sep cs (c # cur))"

text \<open>The component loop of \<open>posixpath.normpath\<close>.\<close>

fun norm_comps :: "bool \<Rightarrow> string list \<Rightarrow> string list \<Rightarrow> string list" where
  "norm_comps initial_slashes [] new_comps = new_comps"
| "norm_comps initial_slashes (part # parts) new_comps =
     (if part = [] \<or> part = ''.'' then norm_comps initial_slashes parts new_comps
      else if part \<noteq> ''..'' \<or> (\<not> initial_slashes \<and> new_comps = [])
              \<or> (new_comps \<noteq> [] \<and> last new_comps = ''..'')
      then norm_comps initial_slashes parts (new_comps @ [part])
      else if new_comps \<noteq> [] then norm_comps initial_slashes parts (butlast new_comps)
      else norm_comps initial_slashes parts new_comps)"

fun join_sep :: "string list \<Rightarrow> string" where
  "join_sep [] = []"
| "join_sep [c] = c"
| "join_sep (c # cs) = c @ [sep] @ join_sep cs"

text \<open>\<open>os.path.normpath(path)\<close>.\<close>

definition normpath :: "string \<Rightarrow> string" where
  "normpath path =
     (if path = [] then ''.''
      else
        let initial_slashes :: nat =
              (if take 1 path = ''/''
               then (if take 2 path = ''//'' \<and> take 3 path \<noteq> ''///'' then 2 else 1)
               else 0);
            comps = norm_comps (initial_slashes \<noteq> 0) (split_sep path []) [];
            joined = replicate initial_slashes sep @ join_sep comps
        in if joined = [] then ''.'' else joined)"

text \<open>\<open>str.lower()\<close> on ASCII letters.\<close>

definition lower_char :: "char \<Rightarrow> char" where
  "lower_char c =
     (let n = (of_char c :: nat) in if 65 \<le> n \<and> n \<le> 90 then char_of (n + 32) else c)"

definition lower :: "string \<Rightarrow> string" where
  "lower s = map lower_char s"

text \<open>
  A node of the file system: a file that can be opened for reading, with its bytes; an
  entry that exists but cannot be opened for reading; a directory with the names
  \<open>os.listdir\<close> returns for it.
\<close>

datatype node = File string | Locked | Dir "string list"

text \<open>Parsed JSON, as \<open>json.load\<close> returns it (an object is a key-value list).\<close>

datatype json =
    JNull
  | JBool bool
  | JInt int
  | JStr string
  | JArr "json list"
  | JObj "(string \<times> json) list"

datatype error =
    OSError
  | UnicodeDecodeError
  | JSONDecodeError
  | AttributeError
  | TypeError

text \<open>
  What the process finds around it and does not change while importing: the file
  system; the built-in \<open>hash\<close> on strings (seeded per process); the decoder of
  \<open>open(..., encoding='utf-8', errors='ignore')\<close>, which skips undecodable bytes;
  \<open>json.load\<close> on a file opened with strict UTF-8 decoding; the rendering of a list or
  dict inside an f-string; whether the configuration file can be written.
\<close>

record world =
  fs :: "string \<Rightarrow> node option"
  str_hash :: "string \<Rightarrow> int"
  decode_ignore :: "string \<Rightarrow> string"
  json_load :: "string \<Rightarrow> error + json"
  py_repr :: "json \<Rightarrow> string"
  config_writable :: bool

text \<open>\<open>os.path.exists(path)\<close>.\<close>

definition path_exists :: "world \<Rightarrow> string \<Rightarrow> bool" where
  "path_exists w path = (path \<noteq> [] \<and> fs w path \<noteq> None)"

text \<open>\<open>open(path, 'r', encoding='utf-8', errors='ignore').read()\<close>.\<close>

definition read_text :: "world \<Rightarrow> string \<Rightarrow> error + string" where
  "read_text w path =
     (if path = [] then Inl OSError
      else case fs w path of
             Some (File bytes) \<Rightarrow> Inr (decode_ignore w bytes)
           | _ \<Rightarrow> Inl OSError)"

text \<open>\<open>json.load(open(path, 'r', encoding='utf-8'))\<close>.\<close>

definition read_json :: "world \<Rightarrow> string \<Rightarrow> error + json" where
  "read_json w path =
     (if path = [] then Inl OSError
      else case fs w path of
             Some (File bytes) \<Rightarrow> json_load w bytes
           | _ \<Rightarrow> Inl OSError)"

text \<open>\<open>os.listdir(dir_path)\<close>.\<close>

definition listdir :: "world \<Rightarrow> string \<Rightarrow> error + string list" where
  "listdir w dir_path =
     (if dir_path = [] then Inl OSError
      else case fs w dir_path of
             Some (Dir names) \<Rightarrow> Inr names
           | _ \<Rightarrow> Inl OSError)"

section \<open>The testpoint store\<close>

text \<open>A record of \<open>testpoint_data\<close>: its \<open>'input'\<close> and \<open>'output'\<close> entries.\<close>

record testpoint =
  tp_input :: json
  tp_output :: json

text \<open>
  A Python dict of testpoints, in insertion order: \<open>d[k] = v\<close> is \<open>AList.update k v d\<close>,
  which replaces in place or appends.
\<close>

type_synonym testpoints = "(string \<times> testpoint) list"

definition dict_update :: "testpoints \<Rightarrow> testpoints \<Rightarrow> testpoints" where
  "dict_update d other = fold (\<lambda>(k, v). AList.update k v) other d"

definition has_key :: "string \<Rightarrow> testpoints \<Rightarrow> bool" where
  "has_key k d = (map_of d k \<noteq> None)"

text \<open>
  The state of the viewer: \<open>self.testpoint_data\<close>, the list held in
  \<open>testpoints.json\<close> (empty when the file is absent), and \<open>self.current_file\<close>.
\<close>

record state =
  testpoint_data :: testpoints
  saved_paths :: "string list"
  current_file :: "string option"

subsection \<open>ConfigManager\<close>

text \<open>The loop of \<open>save_testpoint_paths\<close> over \<open>testpoint_paths\<close>.\<close>

fun unique_existing :: "world \<Rightarrow> string list \<Rightarrow> string list \<Rightarrow> string set \<Rightarrow> string list" where
  "unique_existing w [] unique_paths unique_bases = unique_paths"
| "unique_existing w (path # rest) unique_paths unique_bases =
     (if path_exists w path then
        (let base_name = base_of path
         in if base_name \<notin> unique_bases
            then unique_existing w rest (unique_paths @ [path]) (insert base_name unique_bases)
            else unique_existing w rest unique_paths unique_bases)
      else unique_existing w rest unique_paths unique_bases)"

text \<open>
  \<open>save_testpoint_paths\<close>: returns \<open>False\<close> and leaves the file as it is when the
  directory or the file cannot be written.
\<close>

definition save_testpoint_paths :: "world \<Rightarrow> string list \<Rightarrow> state \<Rightarrow> bool \<times> state" where
  "save_testpoint_paths w testpoint_paths s =
     (if config_writable w
      then (True, s\<lparr>saved_paths := unique_existing w testpoint_paths [] {}\<rparr>)
      else (False, s))"

text \<open>\<open>load_testpoint_paths\<close>: each saved path is normalised and kept when it exists.\<close>

definition load_testpoint_paths :: "world \<Rightarrow> state \<Rightarrow> string list" where
  "load_testpoint_paths w s =
     filter (path_exists w) (map normpath (saved_paths s))"

subsection \<open>Regular expressions on extensions, decimal rendering\<close>

text \<open>
  The end anchor \<open>$\<close> matches at the end of the string and just before a newline that
  ends it.
\<close>

definition strip_final_newline :: "string \<Rightarrow> string" where
  "strip_final_newline s = (if s \<noteq> [] \<and> last s = newline then butlast s else s)"

text \<open>\<open>t\<close> ends with a dot and the extension \<open>e\<close>, ignoring (ASCII) case.\<close>

definition ends_with_ext :: "string \<Rightarrow> string \<Rightarrow> bool" where
  "ends_with_ext e t =
     (Suc (length e) \<le> length t \<and> lower (drop (length t - Suc (length e)) t) = extsep # e)"

text \<open>
  \<open>re.match(r'.*\.(e1|e2|...)$', s, re.IGNORECASE)\<close>: the dot of \<open>.*\<close> does not match
  a newline.
\<close>

definition re_match_ext :: "string list \<Rightarrow> string \<Rightarrow> bool" where
  "re_match_ext exts s =
     (let t = strip_final_newline s
      in \<exists>e\<in>set exts. ends_with_ext e t \<and> newline \<notin> set (take (length t - Suc (length e)) t))"

text \<open>\<open>re.sub(r'\.(e1|e2|...)$', repl, s, flags=re.IGNORECASE)\<close>.\<close>

definition re_sub_ext :: "string list \<Rightarrow> string \<Rightarrow> string \<Rightarrow> string" where
  "re_sub_ext exts repl s =
     (let t = strip_final_newline s
      in case filter (\<lambda>e. ends_with_ext e t) exts of
           [] \<Rightarrow> s
         | e # _ \<Rightarrow> take (length t - Suc (length e)) t @ repl @ drop (length t) s)"

definition input_exts :: "string list" where
  "input_exts = [''in'', ''input'']"

definition output_exts :: "string list" where
  "output_exts = [''out'', ''ans'', ''output'']"

text \<open>\<open>str(n)\<close> for an integer.\<close>

fun digits10 :: "nat \<Rightarrow> string" where
  "digits10 n =
     (if n < 10 then [''0123456789'' ! n]
      else digits10 (n div 10) @ [''0123456789'' ! (n mod 10)])"

declare digits10.simps [simp del]

definition py_str_int :: "int \<Rightarrow> string" where
  "py_str_int i = (if i < 0 then CHR ''-'' # digits10 (nat (- i)) else digits10 (nat i))"

text \<open>The value of an f-string field.\<close>

definition py_format :: "world \<Rightarrow> json \<Rightarrow> string" where
  "py_format w v =
     (case v of
        JStr s \<Rightarrow> s
      | JInt i \<Rightarrow> py_str_int i
      | JBool b \<Rightarrow> (if b then ''True'' else ''False'')
      | JNull \<Rightarrow> ''None''
      | _ \<Rightarrow> py_repr w v)"

text \<open>The two sentinel strings and the label prefix of the source, as UTF-8 bytes.\<close>

definition no_output_file :: string where
  "no_output_file =
     [CHR 0xE6, CHR 0x9C, CHR 0xAA, CHR 0xE6, CHR 0x89, CHR 0xBE, CHR 0xE5, CHR 0x88, CHR 0xB0,
      CHR 0xE5, CHR 0xAF, CHR 0xB9, CHR 0xE5, CHR 0xBA, CHR 0x94, CHR 0xE7, CHR 0x9A, CHR 0x84,
      CHR 0xE8, CHR 0xBE, CHR 0x93, CHR 0xE5, CHR 0x87, CHR 0xBA, CHR 0xE6, CHR 0x96, CHR 0x87,
      CHR 0xE4, CHR 0xBB, CHR 0xB6]"

definition no_input_file :: string where
  "no_input_file =
     [CHR 0xE6, CHR 0x9C, CHR 0xAA, CHR 0xE6, CHR 0x89, CHR 0xBE, CHR 0xE5, CHR 0x88, CHR 0xB0,
      CHR 0xE5, CHR 0xAF, CHR 0xB9, CHR 0xE5, CHR 0xBA, CHR 0x94, CHR 0xE7, CHR 0x9A, CHR 0x84,
      CHR 0xE8, CHR 0xBE, CHR 0x93, CHR 0xE5, CHR 0x85, CHR 0xA5, CHR 0xE6, CHR 0x96, CHR 0x87,
      CHR 0xE4, CHR 0xBB, CHR 0xB6]"

definition testpoint_label :: string where
  "testpoint_label =
     [CHR 0xE6, CHR 0xB5, CHR 0x8B, CHR 0xE8, CHR 0xAF, CHR 0x95, CHR 0xE7, CHR 0x82, CHR 0xB9,
      CHR 0x5F]"

text \<open>\<open>str(abs(hash(dir_path)) % 10000)\<close>.\<close>

definition dir_hash :: "world \<Rightarrow> string \<Rightarrow> string" where
  "dir_hash w dir_path = py_str_int (\<bar>str_hash w dir_path\<bar> mod 10000)"

subsection \<open>load_json_testpoints\<close>

text \<open>\<open>d.get(key, '')\<close> on a parsed object.\<close>

definition get_or_empty :: "(string \<times> json) list \<Rightarrow> string \<Rightarrow> json" where
  "get_or_empty d key = (case map_of d key of Some v \<Rightarrow> v | None \<Rightarrow> JStr [])"

text \<open>
  What \<open>enumerate\<close> iterates over: the elements of a list, the characters of a string,
  the keys of a dict; any other value is not iterable.
\<close>

definition py_iter :: "json \<Rightarrow> error + json list" where
  "py_iter v =
     (case v of
        JArr xs \<Rightarrow> Inr xs
      | JStr s \<Rightarrow> Inr (map (\<lambda>c. JStr [c]) s)
      | JObj d \<Rightarrow> Inr (map (\<lambda>(k, _). JStr k) d)
      | _ \<Rightarrow> Inl TypeError)"

text \<open>
  The loop over \<open>data['testCases']\<close>; \<open>i\<close> is the index \<open>enumerate\<close> gives. The body
  calls \<open>test_case.get\<close>, which only a dict has.
\<close>

fun luogu_cases :: "string \<Rightarrow> nat \<Rightarrow> json list \<Rightarrow> testpoints \<Rightarrow> error + testpoints" where
  "luogu_cases base_name i [] new_testpoints = Inr new_testpoints"
| "luogu_cases base_name i (test_case # rest) new_testpoints =
     (case test_case of
        JObj d \<Rightarrow>
          luogu_cases base_name (Suc i) rest
            (AList.update (base_name @ ''_'' @ testpoint_label @ py_str_int (int i + 1))
               \<lparr>tp_input = get_or_empty d ''input'', tp_output = get_or_empty d ''output''\<rparr>
               new_testpoints)
      | _ \<Rightarrow> Inl AttributeError)"

text \<open>The loop over \<open>data.items()\<close> of a dict without \<open>testCases\<close>.\<close>

fun dict_cases :: "string \<Rightarrow> (string \<times> json) list \<Rightarrow> testpoints \<Rightarrow> testpoints" where
  "dict_cases base_name [] new_testpoints = new_testpoints"
| "dict_cases base_name ((name, content) # rest) new_testpoints =
     (case content of
        JObj d \<Rightarrow>
          dict_cases base_name rest
            (AList.update (base_name @ ''_'' @ name)
               \<lparr>tp_input = get_or_empty d ''input'', tp_output = get_or_empty d ''output''\<rparr>
               new_testpoints)
      | _ \<Rightarrow> dict_cases base_name rest new_testpoints)"

text \<open>The loop over a top-level list.\<close>

fun list_cases :: "world \<Rightarrow> string \<Rightarrow> nat \<Rightarrow> json list \<Rightarrow> testpoints \<Rightarrow> testpoints" where
  "list_cases w base_name i [] new_testpoints = new_testpoints"
| "list_cases w base_name i (item # rest) new_testpoints =
     (case item of
        JObj d \<Rightarrow>
          (let item_name =
                 (case map_of d ''name'' of
                    Some v \<Rightarrow> py_format w v
                  | None \<Rightarrow> testpoint_label @ py_str_int (int i + 1))
           in list_cases w base_name (Suc i) rest
                (AList.update (base_name @ ''_'' @ item_name)
                   \<lparr>tp_input = get_or_empty d ''input'', tp_output = get_or_empty d ''output''\<rparr>
                   new_testpoints))
      | _ \<Rightarrow> list_cases w base_name (Suc i) rest new_testpoints)"

definition load_json_testpoints :: "world \<Rightarrow> string \<Rightarrow> testpoints \<Rightarrow> error + testpoints" where
  "load_json_testpoints w file_path td =
     (case read_json w file_path of
        Inl e \<Rightarrow> Inl e
      | Inr data \<Rightarrow>
          (let base_name = basename file_path
           in case data of
                JObj d \<Rightarrow>
                  (case map_of d ''testCases'' of
                     Some test_cases \<Rightarrow>
                       (case py_iter test_cases of
                          Inl e \<Rightarrow> Inl e
                        | Inr cases \<Rightarrow>
                            (case luogu_cases base_name 0 cases [] of
                               Inl e \<Rightarrow> Inl e
                             | Inr new_testpoints \<Rightarrow> Inr (dict_update td new_testpoints)))
                   | None \<Rightarrow> Inr (dict_update td (dict_cases base_name d [])))
              | JArr items \<Rightarrow> Inr (dict_update td (list_cases w base_name 0 items []))
              | _ \<Rightarrow> Inr (dict_update td [])))"

subsection \<open>load_text_testpoints\<close>

definition load_text_testpoints :: "world \<Rightarrow> string \<Rightarrow> testpoints \<Rightarrow> error + testpoints" where
  "load_text_testpoints w file_path td =
     (case read_text w file_path of
        Inl e \<Rightarrow> Inl e
      | Inr content \<Rightarrow>
          (let base_name = basename file_path;
               name_without_ext = fst (splitext base_name);
               unique_name = dir_hash w (dirname file_path) @ ''_'' @ name_without_ext
           in case map_of td unique_name of
                Some r \<Rightarrow>
                  (if re_match_ext input_exts base_name
                   then Inr (AList.update unique_name (r\<lparr>tp_input := JStr content\<rparr>) td)
                   else if re_match_ext output_exts base_name
                   then Inr (AList.update unique_name (r\<lparr>tp_output := JStr content\<rparr>) td)
                   else Inr (AList.update unique_name (r\<lparr>tp_input := JStr content\<rparr>) td))
              | None \<Rightarrow>
                  (if re_match_ext input_exts base_name then
                     (let out_file = re_sub_ext input_exts ''.out'' file_path;
                          output_file =
                            (if \<not> path_exists w out_file
                             then re_sub_ext input_exts ''.ans'' file_path
                             else out_file)
                      in if path_exists w output_file then
                           (case read_text w output_file of
                              Inl e \<Rightarrow> Inl e
                            | Inr output_content \<Rightarrow>
                                Inr (dict_update td
                                  [(unique_name,
                                    \<lparr>tp_input = JStr content,
                                     tp_output = JStr output_content\<rparr>)]))
                         else
                           Inr (dict_update td
                             [(unique_name,
                               \<lparr>tp_input = JStr content,
                                tp_output = JStr no_output_file\<rparr>)]))
                   else if re_match_ext output_exts base_name then
                     (let in_file = re_sub_ext output_exts ''.in'' file_path;
                          input_file =
                            (if \<not> path_exists w in_file
                             then re_sub_ext output_exts ''.input'' file_path
                             else in_file)
                      in if path_exists w input_file then
                           (case read_text w input_file of
                              Inl e \<Rightarrow> Inl e
                            | Inr input_content \<Rightarrow>
                                Inr (dict_update td
                                  [(unique_name,
                                    \<lparr>tp_input = JStr input_content,
                                     tp_output = JStr content\<rparr>)]))
                         else
                           Inr (dict_update td
                             [(unique_name,
                               \<lparr>tp_input = JStr no_input_file,
                                tp_output = JStr content\<rparr>)]))
                   else
                     Inr (dict_update td
                       [(unique_name, \<lparr>tp_input = JStr content, tp_output = JStr []\<rparr>)]))))"

subsection \<open>find_related_testpoints\<close>

text \<open>\<open>input_map\<close> and \<open>output_map\<close>: from the name without extension to the file.\<close>

definition name_map :: "string list \<Rightarrow> (string \<times> string) list" where
  "name_map files = fold (\<lambda>f m. AList.update (fst (splitext f)) f m) files []"

text \<open>
  The loop over \<open>input_map\<close>; \<open>hash\<close> is \<open>dir_hash\<close> of the directory. It returns
  \<open>processed_names\<close> and \<open>new_testpoints\<close>.
\<close>

fun related_inputs ::
  "world \<Rightarrow> string \<Rightarrow> string \<Rightarrow> testpoints \<Rightarrow> (string \<times> string) list \<Rightarrow>
   (string \<times> string) list \<Rightarrow> string set \<Rightarrow> testpoints \<Rightarrow> error + (string set \<times> testpoints)" where
  "related_inputs w dir_path hash td output_map [] processed_names new_testpoints =
     Inr (processed_names, new_testpoints)"
| "related_inputs w dir_path hash td output_map ((base_name, in_file) # rest)
     processed_names new_testpoints =
     (let unique_name = hash @ ''_'' @ base_name
      in if has_key unique_name td \<or> base_name \<in> processed_names
         then related_inputs w dir_path hash td output_map rest processed_names new_testpoints
         else
           (case read_text w (path_join dir_path in_file) of
              Inl e \<Rightarrow> Inl e
            | Inr input_content \<Rightarrow>
                (case (case map_of output_map base_name of
                         None \<Rightarrow> Inr no_output_file
                       | Some out_file \<Rightarrow> read_text w (path_join dir_path out_file)) of
                   Inl e \<Rightarrow> Inl e
                 | Inr output_content \<Rightarrow>
                     related_inputs w dir_path hash td output_map rest
                       (insert base_name processed_names)
                       (AList.update unique_name
                          \<lparr>tp_input = JStr input_content, tp_output = JStr output_content\<rparr>
                          new_testpoints))))"

text \<open>The loop over \<open>output_map\<close>.\<close>

fun related_outputs ::
  "world \<Rightarrow> string \<Rightarrow> string \<Rightarrow> testpoints \<Rightarrow> (string \<times> string) list \<Rightarrow>
   (string \<times> string) list \<Rightarrow> string set \<Rightarrow> testpoints \<Rightarrow> error + testpoints" where
  "related_outputs w dir_path hash td input_map [] processed_names new_testpoints =
     Inr new_testpoints"
| "related_outputs w dir_path hash td input_map ((base_name, out_file) # rest)
     processed_names new_testpoints =
     (if base_name \<in> processed_names \<or> map_of input_map base_name \<noteq> None
      then related_outputs w dir_path hash td input_map rest processed_names new_testpoints
      else
        (let unique_name = hash @ ''_'' @ base_name
         in if has_key unique_name td
            then related_outputs w dir_path hash td input_map rest processed_names new_testpoints
            else
              (case read_text w (path_join dir_path out_file) of
                 Inl e \<Rightarrow> Inl e
               | Inr output_content \<Rightarrow>
                   related_outputs w dir_path hash td input_map rest processed_names
                     (AList.update unique_name
                        \<lparr>tp_input = JStr no_input_file, tp_output = JStr output_content\<rparr>
                        new_testpoints))))"

definition find_related_testpoints :: "world \<Rightarrow> string \<Rightarrow> testpoints \<Rightarrow> error + testpoints" where
  "find_related_testpoints w file_path td =
     (let dir_path = dirname file_path
      in case listdir w dir_path of
           Inl e \<Rightarrow> Inl e
         | Inr files \<Rightarrow>
             (let hash = dir_hash w dir_path;
                  current_file_name = fst (splitext (basename file_path));
                  related_files = filter (\<lambda>f. fst (splitext f) = current_file_name) files;
                  input_files = filter (re_match_ext input_exts) related_files;
                  output_files = filter (re_match_ext output_exts) related_files;
                  input_map = name_map input_files;
                  output_map = name_map output_files
              in case related_inputs w dir_path hash td output_map input_map {} [] of
                   Inl e \<Rightarrow> Inl e
                 | Inr (processed_names, new1) \<Rightarrow>
                     (case related_outputs w dir_path hash td input_map output_map
                             processed_names new1 of
                        Inl e \<Rightarrow> Inl e
                      | Inr new_testpoints \<Rightarrow> Inr (dict_update td new_testpoints))))"

subsection \<open>save_testpoints_data and load_testpoints\<close>

text \<open>The check both functions make: some registered path has the same base name.\<close>

definition is_duplicate :: "string \<Rightarrow> string list \<Rightarrow> bool" where
  "is_duplicate file_path testpoint_paths =
     (\<exists>existing_path\<in>set testpoint_paths. base_of file_path = base_of existing_path)"

definition save_testpoints_data :: "world \<Rightarrow> state \<Rightarrow> state" where
  "save_testpoints_data w s =
     (let testpoint_paths = load_testpoint_paths w s;
          testpoint_paths' =
            (case current_file s of
               None \<Rightarrow> testpoint_paths
             | Some cf \<Rightarrow>
                 if cf \<noteq> [] \<and> path_exists w cf \<and> cf \<notin> set testpoint_paths
                    \<and> \<not> is_duplicate cf testpoint_paths
                 then testpoint_paths @ [cf]
                 else testpoint_paths);
          unique_paths = unique_existing w testpoint_paths' [] {}
      in snd (save_testpoint_paths w unique_paths s))"

text \<open>
  What \<open>load_testpoints\<close> tells the user: the notice "the same testpoint data is already
  loaded", the new identifiers (the keys of its \<open>new_testpoints\<close>), or the error it caught.
\<close>

datatype outcome = Duplicate | Loaded "string list" | Failed error

definition load_testpoints :: "world \<Rightarrow> string \<Rightarrow> state \<Rightarrow> outcome \<times> state" where
  "load_testpoints w file_path s =
     (let testpoint_paths = load_testpoint_paths w s
      in if file_path \<in> set testpoint_paths then (Duplicate, s)
         else
           (let s1 = (if \<not> is_duplicate file_path testpoint_paths
                      then snd (save_testpoint_paths w (testpoint_paths @ [file_path]) s)
                      else s);
                current_data = testpoint_data s1;
                file_ext = lower (snd (splitext file_path))
            in case (if file_ext = ''.json''
                     then load_json_testpoints w file_path current_data
                     else load_text_testpoints w file_path current_data) of
                 Inl e \<Rightarrow> (Failed e, s1)
               | Inr td1 \<Rightarrow>
                   (case find_related_testpoints w file_path td1 of
                      Inl e \<Rightarrow> (Failed e, s1\<lparr>testpoint_data := td1\<rparr>)
                    | Inr td2 \<Rightarrow>
                        (let new_testpoints =
                               filter (\<lambda>name. \<not> has_key name current_data) (map fst td2)
                         in if new_testpoints = []
                            then (Duplicate, s1\<lparr>testpoint_data := td2\<rparr>)
                            else (Loaded new_testpoints,
                                  save_testpoints_data w (s1\<lparr>testpoint_data := td2\<rparr>))))))"

section \<open>Example worlds\<close>

text \<open>
  A small world for concrete runs: directories \<open>a\<close>, \<open>b\<close>, \<open>d\<close> and \<open>j\<close>; the hash of
  \<open>b\<close> is negative; the decoder drops the bytes from \<open>0x80\<close> on; one JSON file parses,
  the other does not.
\<close>

definition luogu_bytes :: string where
  "luogu_bytes = ''{testCases: [1, {input: a, output: b}]}''"

definition ex_fs :: "string \<Rightarrow> node option" where
  "ex_fs =
     [''a'' \<mapsto> Dir [''foo.in'', ''bar.in''],
      ''a/foo.in'' \<mapsto> File ''5'',
      ''a/bar.in'' \<mapsto> File ''7'',
      ''b'' \<mapsto> Dir [''foo.out''],
      ''b/foo.out'' \<mapsto> File ''25'',
      ''d'' \<mapsto> Dir [''x.in'', ''x.out'', ''y.in''],
      ''d/x.in'' \<mapsto> File ''3'',
      ''d/x.out'' \<mapsto> File ''9'',
      ''d/y.in'' \<mapsto> File ''4'',
      ''j'' \<mapsto> Dir [''bad.json'', ''luogu.json''],
      ''j/bad.json'' \<mapsto> File ''{'',
      ''j/luogu.json'' \<mapsto> File luogu_bytes]"

definition ex_world :: world where
  "ex_world =
     \<lparr>fs = ex_fs,
      str_hash = (\<lambda>d. if d = ''a'' then 1 else if d = ''b'' then - 2 else 12345),
      decode_ignore = filter (\<lambda>c. (of_char c :: nat) < 128),
      json_load =
        (\<lambda>bytes. if bytes = luogu_bytes
           then Inr (JObj [(''testCases'',
                  JArr [JInt 1, JObj [(''input'', JStr ''a''), (''output'', JStr ''b'')]])])
           else Inl JSONDecodeError),
      py_repr = (\<lambda>_. []),
      config_writable = True\<rparr>"

definition ex_state :: state where
  "ex_state = \<lparr>testpoint_data = [], saved_paths = [], current_file = None\<rparr>"

section \<open>Properties\<close>

subsection \<open>The saved path list\<close>

lemma unique_existing_shape:
  "\<exists>r. unique_existing w ps acc bases = acc @ r \<and> subseq r ps
       \<and> (\<forall>p\<in>set r. path_exists w p \<and> base_of p \<notin> bases)
       \<and> distinct (map base_of r)"
proof (induction ps arbitrary: acc bases)
  case Nil
  show ?case by simp
next
  case (Cons path rest)
  show ?case
  proof (cases "path_exists w path \<and> base_of path \<notin> bases")
    case True
    from Cons.IH [of "acc @ [path]" "insert (base_of path) bases"]
    obtain r where r:
      "unique_existing w rest (acc @ [path]) (insert (base_of path) bases) = (acc @ [path]) @ r"
      "subseq r rest"
      "\<forall>p\<in>set r. path_exists w p \<and> base_of p \<notin> insert (base_of path) bases"
      "distinct (map base_of r)" by blast
    have "unique_existing w (path # rest) acc bases = acc @ (path # r)"
      using True r(1) by (simp add: Let_def)
    moreover have "subseq (path # r) (path # rest)" using r(2) by simp
    moreover have "\<forall>p\<in>set (path # r). path_exists w p \<and> base_of p \<notin> bases"
      using True r(3) by auto
    moreover have "distinct (map base_of (path # r))" using r(3,4) by auto
    ultimately show ?thesis by blast
  next
    case False
    from Cons.IH [of acc bases]
    obtain r where r: "unique_existing w rest acc bases = acc @ r"
      "subseq r rest" "\<forall>p\<in>set r. path_exists w p \<and> base_of p \<notin> bases"
      "distinct (map base_of r)" by blast
    have "unique_existing w (path # rest) acc bases = acc @ r"
      using False r(1) by (auto simp: Let_def)
    moreover have "subseq r (path # rest)" using r(2) by (blast intro: list_emb.intros)
    ultimately show ?thesis using r(3,4) by blast
  qed
qed

lemma unique_existing_first:
  "path_exists w p \<Longrightarrow> base_of p \<notin> bases
   \<Longrightarrow> \<forall>q\<in>set xs. path_exists w q \<longrightarrow> base_of q \<noteq> base_of p
   \<Longrightarrow> p \<in> set (unique_existing w (xs @ p # ys) acc bases)"
proof (induction xs arbitrary: acc bases)
  case Nil
  obtain r where "unique_existing w ys (acc @ [p]) (insert (base_of p) bases) = (acc @ [p]) @ r"
    using unique_existing_shape by blast
  with Nil show ?case by (simp add: Let_def)
next
  case (Cons x xs)
  then show ?case by (auto simp: Let_def)
qed

text \<open>
  C9. Whenever \<open>save_testpoint_paths\<close> writes the list, the saved list has at most one
  path per base name, holds only paths that exist at that moment, keeps the order of the
  list it was given, and keeps, of the existing paths that share a base name, the one
  listed first.
\<close>

theorem save_testpoint_paths_invariant:
  assumes "config_writable w"
  shows "distinct (map base_of (saved_paths (snd (save_testpoint_paths w ps s))))
       \<and> (\<forall>p\<in>set (saved_paths (snd (save_testpoint_paths w ps s))). path_exists w p)
       \<and> subseq (saved_paths (snd (save_testpoint_paths w ps s))) ps
       \<and> (\<forall>xs p ys. ps = xs @ p # ys \<and> path_exists w p
             \<and> (\<forall>q\<in>set xs. path_exists w q \<longrightarrow> base_of q \<noteq> base_of p)
            \<longrightarrow> p \<in> set (saved_paths (snd (save_testpoint_paths w ps s))))"
proof -
  obtain r where r: "unique_existing w ps [] {} = [] @ r" "subseq r ps"
    "\<forall>p\<in>set r. path_exists w p \<and> base_of p \<notin> {}" "distinct (map base_of r)"
    using unique_existing_shape by blast
  have sv: "saved_paths (snd (save_testpoint_paths w ps s)) = unique_existing w ps [] {}"
    using assms by (simp add: save_testpoint_paths_def)
  show ?thesis
    unfolding sv using r unique_existing_first [of w _ "{}" _ _ "[]"] by auto
qed

theorem save_testpoint_paths_invariant_witness:
  "config_writable ex_world
   \<and> saved_paths (snd (save_testpoint_paths ex_world
        [''c/gone.in'', ''a/foo.in'', ''b/foo.out'', ''a/bar.in''] ex_state))
       = [''a/foo.in'', ''a/bar.in'']
   \<and> distinct (map base_of (saved_paths (snd (save_testpoint_paths ex_world
        [''c/gone.in'', ''a/foo.in'', ''b/foo.out'', ''a/bar.in''] ex_state))))
   \<and> ''a/foo.in'' \<in> set (saved_paths (snd (save_testpoint_paths ex_world
        [''c/gone.in'', ''a/foo.in'', ''b/foo.out'', ''a/bar.in''] ex_state)))"
proof -
  have w: "config_writable ex_world" by (simp add: ex_world_def)
  have e: "path_exists ex_world ''a/foo.in''" "\<not> path_exists ex_world ''c/gone.in''"
    by (simp_all add: path_exists_def ex_world_def ex_fs_def)
  have v: "saved_paths (snd (save_testpoint_paths ex_world
        [''c/gone.in'', ''a/foo.in'', ''b/foo.out'', ''a/bar.in''] ex_state))
       = [''a/foo.in'', ''a/bar.in'']"
    by (simp add: save_testpoint_paths_def path_exists_def ex_world_def ex_fs_def base_of_def
        splitext_def basename_def sep_def extsep_def Let_def)
  from save_testpoint_paths_invariant
         [OF w, of "[''c/gone.in'', ''a/foo.in'', ''b/foo.out'', ''a/bar.in'']" ex_state]
  have "distinct (map base_of (saved_paths (snd (save_testpoint_paths ex_world
        [''c/gone.in'', ''a/foo.in'', ''b/foo.out'', ''a/bar.in''] ex_state))))"
     and "\<forall>xs p ys. [''c/gone.in'', ''a/foo.in'', ''b/foo.out'', ''a/bar.in''] = xs @ p # ys
             \<and> path_exists ex_world p
             \<and> (\<forall>q\<in>set xs. path_exists ex_world q \<longrightarrow> base_of q \<noteq> base_of p)
            \<longrightarrow> p \<in> set (saved_paths (snd (save_testpoint_paths ex_world
                  [''c/gone.in'', ''a/foo.in'', ''b/foo.out'', ''a/bar.in''] ex_state)))"
    by blast+
  note inv = this
  have m: "''a/foo.in'' \<in> set (saved_paths (snd (save_testpoint_paths ex_world
        [''c/gone.in'', ''a/foo.in'', ''b/foo.out'', ''a/bar.in''] ex_state)))"
    using inv(2) [rule_format, of "[''c/gone.in'']" "''a/foo.in''" "[''b/foo.out'', ''a/bar.in'']"] e
    by simp
  show ?thesis
    by (intro conjI) (rule w, rule v, rule inv(1), rule m)
qed

subsection \<open>Keys of the store\<close>

lemma has_key_iff: "has_key k d \<longleftrightarrow> k \<in> fst ` set d"
  by (simp add: has_key_def map_of_eq_None_iff)

lemma keys_dict_update: "fst ` set (dict_update d other) = fst ` set d \<union> fst ` set other"
  unfolding dict_update_def
proof (induction other arbitrary: d)
  case Nil
  show ?case by simp
next
  case (Cons a other)
  obtain k v where a: "a = (k, v)" by (cases a)
  have "fst ` set (fold (\<lambda>(k, v). AList.update k v) other (AList.update k v d))
        = fst ` set (AList.update k v d) \<union> fst ` set other"
    by (rule Cons.IH)
  then show ?case unfolding a by (auto simp: dom_update)
qed

lemma dict_update_Nil: "dict_update d [] = d"
  by (simp add: dict_update_def)

lemma dict_update_single: "dict_update d [(k, v)] = AList.update k v d"
  by (simp add: dict_update_def)

lemma keys_name_map_gen:
  "fst ` set (fold (\<lambda>f m. AList.update (g f) f m) files m0) = g ` set files \<union> fst ` set m0"
  by (induction files arbitrary: m0) (auto simp: dom_update)

lemma keys_name_map: "fst ` set (name_map files) = (\<lambda>f. fst (splitext f)) ` set files"
  unfolding name_map_def by (simp add: keys_name_map_gen)

lemma related_inputs_skip:
  "\<forall>b\<in>fst ` set im. has_key (h @ ''_'' @ b) td
   \<Longrightarrow> related_inputs w dp h td om im pn new = Inr (pn, new)"
  by (induction im arbitrary: pn new) (auto simp: Let_def)

lemma related_outputs_skip:
  "\<forall>b\<in>fst ` set om. has_key (h @ ''_'' @ b) td
   \<Longrightarrow> related_outputs w dp h td im om pn new = Inr new"
  by (induction om arbitrary: pn new) (auto simp: Let_def)

lemma related_inputs_keys:
  "related_inputs w dp h td om im pn new = Inr (pn', new')
   \<Longrightarrow> fst ` set new' \<subseteq> fst ` set new \<union> (\<lambda>b. h @ ''_'' @ b) ` fst ` set im"
proof (induction im arbitrary: pn new)
  case Nil
  then show ?case by simp
next
  case (Cons a im)
  obtain b f where a: "a = (b, f)" by (cases a)
  show ?case
  proof (cases "has_key (h @ ''_'' @ b) td \<or> b \<in> pn")
    case True
    with Cons.prems a have "related_inputs w dp h td om im pn new = Inr (pn', new')"
      by (auto simp: Let_def)
    from Cons.IH [OF this] show ?thesis by auto
  next
    case False
    with Cons.prems a obtain ic oc where
      "related_inputs w dp h td om im (insert b pn)
         (AList.update (h @ ''_'' @ b) \<lparr>tp_input = JStr ic, tp_output = JStr oc\<rparr> new) = Inr (pn', new')"
      by (auto simp: Let_def split: sum.splits)
    from Cons.IH [OF this] show ?thesis using a by (auto simp: dom_update)
  qed
qed

lemma related_outputs_keys:
  "related_outputs w dp h td im om pn new = Inr new'
   \<Longrightarrow> fst ` set new' \<subseteq> fst ` set new \<union> (\<lambda>b. h @ ''_'' @ b) ` fst ` set om"
proof (induction om arbitrary: new)
  case Nil
  then show ?case by simp
next
  case (Cons a om)
  obtain b f where a: "a = (b, f)" by (cases a)
  show ?case
  proof (cases "b \<in> pn \<or> map_of im b \<noteq> None \<or> has_key (h @ ''_'' @ b) td")
    case True
    with Cons.prems a have "related_outputs w dp h td im om pn new = Inr new'"
      by (auto simp: Let_def split: if_splits)
    from Cons.IH [OF this] show ?thesis by auto
  next
    case False
    with Cons.prems a obtain oc where
      "related_outputs w dp h td im om pn
         (AList.update (h @ ''_'' @ b) \<lparr>tp_input = JStr no_input_file, tp_output = JStr oc\<rparr> new) = Inr new'"
      by (auto simp: Let_def split: sum.splits)
    from Cons.IH [OF this] show ?thesis using a by (auto simp: dom_update)
  qed
qed

text \<open>The identifier both functions compute for a plain-text path.\<close>

lemma find_related_present:
  assumes "has_key (dir_hash w (dirname p) @ ''_'' @ fst (splitext (basename p))) td"
    and "listdir w (dirname p) = Inr files"
  shows "find_related_testpoints w p td = Inr td"
proof -
  let ?c = "fst (splitext (basename p))"
  let ?rel = "filter (\<lambda>f. fst (splitext f) = ?c) files"
  let ?im = "name_map (filter (re_match_ext input_exts) ?rel)"
  let ?om = "name_map (filter (re_match_ext output_exts) ?rel)"
  have ki: "\<forall>b\<in>fst ` set ?im. has_key (dir_hash w (dirname p) @ ''_'' @ b) td"
    using assms(1) by (auto simp: keys_name_map)
  have ko: "\<forall>b\<in>fst ` set ?om. has_key (dir_hash w (dirname p) @ ''_'' @ b) td"
    using assms(1) by (auto simp: keys_name_map)
  show ?thesis
    unfolding find_related_testpoints_def Let_def
    by (simp add: assms(2) related_inputs_skip [OF ki] related_outputs_skip [OF ko] dict_update_Nil
        del: filter_filter)
qed

lemma find_related_keys:
  assumes "find_related_testpoints w p td = Inr td'"
  shows "fst ` set td' \<subseteq> insert (dir_hash w (dirname p) @ ''_'' @ fst (splitext (basename p))) (fst ` set td)"
proof -
  let ?c = "fst (splitext (basename p))"
  let ?h = "dir_hash w (dirname p)"
  from assms obtain files where ld: "listdir w (dirname p) = Inr files"
    by (auto simp: find_related_testpoints_def Let_def split: sum.splits)
  let ?rel = "filter (\<lambda>f. fst (splitext f) = ?c) files"
  let ?im = "name_map (filter (re_match_ext input_exts) ?rel)"
  let ?om = "name_map (filter (re_match_ext output_exts) ?rel)"
  from assms ld obtain pn new1 new where
    ri: "related_inputs w (dirname p) ?h td ?om ?im {} [] = Inr (pn, new1)"
    and ro: "related_outputs w (dirname p) ?h td ?im ?om pn new1 = Inr new"
    and td': "td' = dict_update td new"
    by (auto simp: find_related_testpoints_def Let_def simp del: filter_filter split: sum.splits)
  have n1: "fst ` set new1 \<subseteq> {?h @ ''_'' @ ?c}"
    using related_inputs_keys [OF ri] by (auto simp: keys_name_map)
  have "fst ` set new \<subseteq> fst ` set new1 \<union> {?h @ ''_'' @ ?c}"
    using related_outputs_keys [OF ro] by (auto simp: keys_name_map)
  with n1 have "fst ` set new \<subseteq> {?h @ ''_'' @ ?c}" by blast
  then show ?thesis unfolding td' keys_dict_update by blast
qed

lemma load_text_shape:
  assumes "load_text_testpoints w p td = Inr td'"
  shows "\<exists>v. td' = AList.update (dir_hash w (dirname p) @ ''_'' @ fst (splitext (basename p))) v td"
proof -
  from assms obtain content where c: "read_text w p = Inr content"
    by (cases "read_text w p") (simp_all add: load_text_testpoints_def)
  show ?thesis
  proof (cases "map_of td (dir_hash w (dirname p) @ ''_'' @ fst (splitext (basename p)))")
    case (Some r)
    with assms c show ?thesis
      by (auto simp: load_text_testpoints_def Let_def split: if_splits)
  next
    case None
    note n = None
    show ?thesis
    proof (cases "re_match_ext input_exts (basename p)")
      case True
      with assms c n show ?thesis
        by (auto simp: load_text_testpoints_def Let_def dict_update_single split: if_splits sum.splits)
    next
      case False
      with assms c n show ?thesis
        by (auto simp: load_text_testpoints_def Let_def dict_update_single split: if_splits sum.splits)
    qed
  qed
qed

lemma load_text_keys:
  assumes "load_text_testpoints w p td = Inr td'"
  shows "fst ` set td' = insert (dir_hash w (dirname p) @ ''_'' @ fst (splitext (basename p))) (fst ` set td)"
proof -
  from load_text_shape [OF assms] obtain v where
    "td' = AList.update (dir_hash w (dirname p) @ ''_'' @ fst (splitext (basename p))) v td"
    by blast
  then show ?thesis by (simp only: dom_update) simp
qed

end
